theory Spec2Isabelle
  imports Main
begin

section \<open>Python strings\<close>

text \<open>
  A Python \<^verbatim>\<open>str\<close> is modelled as a \<^typ>\<open>string\<close> whose characters are the code
  points below 256. \<^verbatim>\<open>str.strip()\<close> removes the characters for which
  \<^verbatim>\<open>str.isspace()\<close> holds; below 256 these are U+0009 to U+000D, U+001C to U+0020,
  U+0085 and U+00A0.
\<close>

definition py_isspace :: "char \<Rightarrow> bool" where
  "py_isspace c \<longleftrightarrow> c \<in> set [CHR 0x09, CHR 0x0A, CHR 0x0B, CHR 0x0C, CHR 0x0D,
     CHR 0x1C, CHR 0x1D, CHR 0x1E, CHR 0x1F, CHR 0x20, CHR 0x85, CHR 0xA0]"

definition strip :: "string \<Rightarrow> string" where
  "strip s = rev (dropWhile py_isspace (rev (dropWhile py_isspace s)))"

text \<open>\<^verbatim>\<open>s.find(c)\<close> and \<^verbatim>\<open>s.rfind(c)\<close> for a one-character \<^verbatim>\<open>c\<close>: the index of the
  first (last) occurrence, or \<open>-1\<close>.\<close>

fun find_char :: "char \<Rightarrow> string \<Rightarrow> int" where
  "find_char c [] = - 1"
| "find_char c (x # xs) =
     (if x = c then 0 else (let r = find_char c xs in if r = - 1 then - 1 else r + 1))"

definition rfind_char :: "char \<Rightarrow> string \<Rightarrow> int" where
  "rfind_char c s =
     (let r = find_char c (rev s) in if r = - 1 then - 1 else int (length s) - 1 - r)"

text \<open>\<^verbatim>\<open>s[a:b]\<close>: a negative index counts from the end, both are clamped to the
  string, and the slice is empty when the end is not after the start.\<close>

definition slice_index :: "nat \<Rightarrow> int \<Rightarrow> nat" where
  "slice_index n i = (if i < 0 then nat (max (i + int n) 0) else min (nat i) n)"

definition py_slice :: "'a list \<Rightarrow> int \<Rightarrow> int \<Rightarrow> 'a list" where
  "py_slice s a b =
     (let i = slice_index (length s) a; j = slice_index (length s) b in take (j - i) (drop i s))"

text \<open>\<^verbatim>\<open>sub in s\<close>: \<open>sub\<close> occurs in \<open>s\<close> as a contiguous substring.\<close>

fun starts_with :: "string \<Rightarrow> string \<Rightarrow> bool" where
  "starts_with [] s = True"
| "starts_with (c # cs) [] = False"
| "starts_with (c # cs) (x # xs) = (c = x \<and> starts_with cs xs)"

fun contains :: "string \<Rightarrow> string \<Rightarrow> bool" where
  "contains sub [] = (sub = [])"
| "contains sub (x # xs) = (starts_with sub (x # xs) \<or> contains sub xs)"

section \<open>Vision extraction: isolating the JSON payload\<close>

text \<open>
  \<^verbatim>\<open>analyze_image_with_gemini\<close>, from the point where the service has answered with
  \<^verbatim>\<open>response.text\<close>. The three ways out are the three branches of the source:
  \<^item> \<open>NoResponse\<close>: \<^verbatim>\<open>if not response.text\<close>, "No response from Gemini API";
  \<^item> \<open>NoJsonFound content\<close>: the \<^verbatim>\<open>else\<close> branch, "Could not extract JSON from Gemini
    response", showing the raw content;
  \<^item> \<open>JsonLoads json_str\<close>: \<^verbatim>\<open>json.loads(json_str)\<close> is called on the candidate; its
    \<^verbatim>\<open>JSONDecodeError\<close> is reported as "Failed to parse JSON response".
\<close>

datatype extraction = NoResponse | NoJsonFound string | JsonLoads string

definition analyze_image_with_gemini :: "string \<Rightarrow> extraction" where
  "analyze_image_with_gemini response_text =
     (if response_text = [] then NoResponse
      else
        let content = strip response_text;
            start_idx = find_char CHR ''{'' content;
            end_idx = rfind_char CHR ''}'' content + 1
        in if start_idx \<noteq> - 1 \<and> end_idx \<noteq> - 1
           then JsonLoads (py_slice content start_idx end_idx)
           else NoJsonFound content)"

section \<open>Sheet submission: classifying the reply\<close>

text \<open>
  What \<^verbatim>\<open>requests.post\<close> did: it raised \<^verbatim>\<open>requests.exceptions.Timeout\<close>, another
  \<^verbatim>\<open>RequestException\<close> or some other exception (each with its message), or it
  returned a response, whose \<^verbatim>\<open>text\<close> is the field \<open>body\<close>.
\<close>

record response =
  status_code :: int
  reason :: string
  url :: string
  body :: string

datatype post_result =
    RaisedTimeout
  | RaisedRequestException string
  | RaisedException string
  | Returned response

text \<open>
  The return statements of \<^verbatim>\<open>send_to_google_sheets\<close>, in the order of the source:
  success with \<^verbatim>\<open>len(rows)\<close>, "Unauthorized", "Invalid data format sent", "No data
  received", "Apps Script returned: ..." with the text, "Request timed out",
  "Network error: ..." and "Unexpected error: ...".
\<close>

datatype outcome =
    Success nat
  | AuthRejected
  | FormatRejected
  | EmptyPayloadRejected
  | UnknownResponse string
  | Timeout
  | NetworkError string
  | UnexpectedError string

function nat_str :: "nat \<Rightarrow> string" where
  "nat_str n =
     (if n < 10 then [''0123456789'' ! n] else nat_str (n div 10) @ [''0123456789'' ! (n mod 10)])"
  by pat_completeness auto
termination
  by (relation "measure id") auto

declare nat_str.simps [simp del]

definition int_str :: "int \<Rightarrow> string" where
  "int_str i = (if i < 0 then CHR ''-'' # nat_str (nat (- i)) else nat_str (nat i))"

text \<open>\<^verbatim>\<open>Response.raise_for_status()\<close> of the requests library: an \<^verbatim>\<open>HTTPError\<close> (a
  \<^verbatim>\<open>RequestException\<close>) with this message for a status from 400 to 599, nothing
  otherwise.\<close>

definition raise_for_status :: "response \<Rightarrow> string option" where
  "raise_for_status r =
     (if 400 \<le> status_code r \<and> status_code r < 500
      then Some (int_str (status_code r) @ '' Client Error: '' @ reason r @ '' for url: '' @ url r)
      else if 500 \<le> status_code r \<and> status_code r < 600
      then Some (int_str (status_code r) @ '' Server Error: '' @ reason r @ '' for url: '' @ url r)
      else None)"

definition classify_text :: "nat \<Rightarrow> string \<Rightarrow> outcome" where
  "classify_text len_rows response_text =
     (if contains ''Success'' response_text then Success len_rows
      else if contains ''Unauthorized'' response_text then AuthRejected
      else if contains ''Invalid data format'' response_text then FormatRejected
      else if contains ''No postData received'' response_text then EmptyPayloadRejected
      else UnknownResponse response_text)"

text \<open>The \<^verbatim>\<open>try\<close> block after the request and its three handlers.\<close>

definition submit :: "nat \<Rightarrow> post_result \<Rightarrow> outcome" where
  "submit len_rows p =
     (case p of
        RaisedTimeout \<Rightarrow> Timeout
      | RaisedRequestException msg \<Rightarrow> NetworkError msg
      | RaisedException msg \<Rightarrow> UnexpectedError msg
      | Returned r \<Rightarrow>
          (case raise_for_status r of
             Some msg \<Rightarrow> NetworkError msg
           | None \<Rightarrow> classify_text len_rows (strip (body r))))"

section \<open>Python floats\<close>

text \<open>
  A Python \<^verbatim>\<open>float\<close> is an IEEE 754 binary64 value. \<open>Finite s m e\<close> is the
  number \<open>m * 2 ^ e\<close>, negated when \<open>s\<close> holds, with \<open>m < 2 ^ 53\<close> and
  \<open>-1074 \<le> e \<le> 971\<close>, normalised so that \<open>2 ^ 52 \<le> m\<close> unless \<open>e = -1074\<close> (zero
  and the subnormal numbers). The sign of a NaN is not kept: no operation used here can
  observe it.
\<close>

datatype pyfloat = Finite bool nat int | Infinity bool | NaN

fun bitlen :: "nat \<Rightarrow> nat" where
  "bitlen n = (if n = 0 then 0 else Suc (bitlen (n div 2)))"

declare bitlen.simps [simp del]

text \<open>\<open>num / den\<close> rounded to the nearest natural number, a tie to the even one.\<close>

definition round_half_even :: "nat \<Rightarrow> nat \<Rightarrow> nat" where
  "round_half_even num den =
     (let q = num div den; r = num mod den
      in if 2 * r < den then q
         else if den < 2 * r then q + 1
         else if even q then q else q + 1)"

text \<open>The integer \<open>b\<close> with \<open>2 ^ b \<le> p / q < 2 ^ (b + 1)\<close>, for positive \<open>p\<close> and \<open>q\<close>.\<close>

definition ilog2 :: "nat \<Rightarrow> nat \<Rightarrow> int" where
  "ilog2 p q =
     (let b = int (bitlen p) - int (bitlen q)
      in if (if 0 \<le> b then q * 2 ^ nat b \<le> p else q \<le> p * 2 ^ nat (- b)) then b else b - 1)"

text \<open>The double nearest to \<open>p / q\<close>, with sign \<open>s\<close> (round to nearest, ties to even);
  a magnitude that rounds beyond the largest double gives an infinity.\<close>

definition round_double :: "bool \<Rightarrow> nat \<Rightarrow> nat \<Rightarrow> pyfloat" where
  "round_double s p q =
     (if p = 0 then Finite s 0 (- 1074)
      else
        let e = max (ilog2 p q - 52) (- 1074);
            m = (if 0 \<le> e then round_half_even p (q * 2 ^ nat e)
                 else round_half_even (p * 2 ^ nat (- e)) q);
            m' = (if m = 2 ^ 53 then 2 ^ 52 else m);
            e' = (if m = 2 ^ 53 then e + 1 else e)
        in if 971 < e' then Infinity s else Finite s m' e')"

subsection \<open>\<^verbatim>\<open>float(str)\<close>\<close>

datatype pyerr = ValueError | TypeError | OverflowError

definition is_digit :: "char \<Rightarrow> bool" where
  "is_digit c \<longleftrightarrow> c \<in> set ''0123456789''"

definition digit_val :: "char \<Rightarrow> nat" where
  "digit_val c = of_char c - 48"

definition digits_val :: "string \<Rightarrow> nat" where
  "digits_val ds = foldl (\<lambda>a c. 10 * a + digit_val c) 0 ds"

text \<open>
  \<^verbatim>\<open>_PyUnicode_TransformDecimalAndSpaceToASCII\<close>: a code point below 127 is kept,
  other whitespace becomes a space, and the first other character (below 256 there are
  no further decimal digits) becomes \<^verbatim>\<open>?\<close> and ends the text.
\<close>

fun transform_decimal_and_space :: "string \<Rightarrow> string" where
  "transform_decimal_and_space [] = []"
| "transform_decimal_and_space (c # cs) =
     (if (of_char c :: nat) < 127 then c # transform_decimal_and_space cs
      else if py_isspace c then CHR '' '' # transform_decimal_and_space cs
      else ''?'')"

text \<open>
  \<^verbatim>\<open>_Py_string_to_number_with_underscores\<close>: an underscore is dropped when it stands
  between two digits; anywhere else it is an error. \<open>prev\<close> is the character before,
  NUL at the start.
\<close>

fun remove_underscores :: "char \<Rightarrow> string \<Rightarrow> string option" where
  "remove_underscores prev [] = (if prev = CHR ''_'' then None else Some [])"
| "remove_underscores prev (c # cs) =
     (if c = CHR ''_''
      then (if is_digit prev then remove_underscores c cs else None)
      else if prev = CHR ''_'' \<and> \<not> is_digit c then None
      else map_option ((#) c) (remove_underscores c cs))"

text \<open>\<^verbatim>\<open>Py_ISSPACE\<close>, the whitespace of the C locale, stripped by
  \<^verbatim>\<open>float_from_string_inner\<close> at both ends.\<close>

definition c_isspace :: "char \<Rightarrow> bool" where
  "c_isspace c \<longleftrightarrow> c \<in> set [CHR 0x09, CHR 0x0A, CHR 0x0B, CHR 0x0C, CHR 0x0D, CHR 0x20]"

definition strip_c :: "string \<Rightarrow> string" where
  "strip_c s = rev (dropWhile c_isspace (rev (dropWhile c_isspace s)))"

definition parse_sign :: "string \<Rightarrow> bool \<times> string" where
  "parse_sign s =
     (case s of
        c # r \<Rightarrow> if c = CHR ''-'' then (True, r) else if c = CHR ''+'' then (False, r) else (False, s)
      | [] \<Rightarrow> (False, s))"

text \<open>The exponent part: \<^verbatim>\<open>e\<close> or \<^verbatim>\<open>E\<close>, an optional sign and at least one digit;
  without a digit nothing is consumed.\<close>

definition parse_exponent :: "string \<Rightarrow> int \<times> string" where
  "parse_exponent s =
     (case s of
        c # r \<Rightarrow>
          if c = CHR ''e'' \<or> c = CHR ''E''
          then (let (neg, r1) = parse_sign r; ds = takeWhile is_digit r1
                in if ds = [] then (0, s)
                   else ((if neg then - int (digits_val ds) else int (digits_val ds)),
                         dropWhile is_digit r1))
          else (0, s)
      | [] \<Rightarrow> (0, s))"

text \<open>
  \<^verbatim>\<open>_Py_dg_strtod\<close>: sign, digits, an optional point and digits, an optional
  exponent, with a digit before or after the point. The result is the correctly rounded
  value and the unread rest; \<open>None\<close> when there is no number at the start. (The
  C code caps the absolute value of the written exponent at 1100000000, which can
  only show in a text of more than a billion characters.)
\<close>

definition strtod :: "string \<Rightarrow> (pyfloat \<times> string) option" where
  "strtod s =
     (let (neg, s1) = parse_sign s;
          ip = takeWhile is_digit s1;
          r1 = dropWhile is_digit s1;
          (fp, r2) = (case r1 of
                        c # t \<Rightarrow> if c = CHR ''.'' then (takeWhile is_digit t, dropWhile is_digit t)
                                 else ([], r1)
                      | [] \<Rightarrow> ([], r1))
      in if ip = [] \<and> fp = [] then None
         else
           let (ex, r3) = parse_exponent r2;
               d = digits_val (ip @ fp);
               x = ex - int (length fp)
           in Some (if 0 \<le> x then round_double neg (d * 10 ^ nat x) 1
                    else round_double neg d (10 ^ nat (- x)), r3))"

definition lower :: "char \<Rightarrow> char" where
  "lower c = (if (65::nat) \<le> of_char c \<and> of_char c \<le> (90::nat) then char_of (of_char c + (32::nat)) else c)"

text \<open>\<^verbatim>\<open>_Py_parse_inf_or_nan\<close>: \<^verbatim>\<open>inf\<close>, \<^verbatim>\<open>infinity\<close> or \<^verbatim>\<open>nan\<close> in any case, after an
  optional sign.\<close>

definition parse_inf_or_nan :: "string \<Rightarrow> (pyfloat \<times> string) option" where
  "parse_inf_or_nan s =
     (let (neg, s1) = parse_sign s; l = map lower s1
      in if starts_with ''inf'' l
         then (if starts_with ''inity'' (drop 3 l) then Some (Infinity neg, drop 8 s1)
               else Some (Infinity neg, drop 3 s1))
         else if starts_with ''nan'' l then Some (NaN, drop 3 s1)
         else None)"

text \<open>\<^verbatim>\<open>float(v)\<close> for a string \<open>v\<close>: the whole text, after trimming, must be one
  number; anything else raises \<^verbatim>\<open>ValueError\<close>.\<close>

definition py_float :: "string \<Rightarrow> pyerr + pyfloat" where
  "py_float v =
     (case remove_underscores (CHR 0x00) (transform_decimal_and_space v) of
        None \<Rightarrow> Inl ValueError
      | Some s \<Rightarrow>
          let s1 = strip_c s
          in if s1 = [] then Inl ValueError
             else (case (case strtod s1 of None \<Rightarrow> parse_inf_or_nan s1 | Some r \<Rightarrow> Some r) of
                     None \<Rightarrow> Inl ValueError
                   | Some (x, rest) \<Rightarrow> if rest = [] then Inr x else Inl ValueError))"

subsection \<open>Subtraction and comparison\<close>

text \<open>A finite double as a signed multiple of \<open>2 ^ e0\<close>, for \<open>e0 \<le> e\<close>.\<close>

definition scaled :: "bool \<Rightarrow> nat \<Rightarrow> int \<Rightarrow> int \<Rightarrow> int" where
  "scaled s m e e0 = (if s then - 1 else 1) * int m * 2 ^ nat (e - e0)"

fun float_sub :: "pyfloat \<Rightarrow> pyfloat \<Rightarrow> pyfloat" where
  "float_sub NaN y = NaN"
| "float_sub x NaN = NaN"
| "float_sub (Infinity s) (Infinity t) = (if s = t then NaN else Infinity s)"
| "float_sub (Infinity s) (Finite t m e) = Infinity s"
| "float_sub (Finite s m e) (Infinity t) = Infinity (\<not> t)"
| "float_sub (Finite s m e) (Finite t n f) =
     (let e0 = min e f;
          d = scaled s m e e0 - scaled t n f e0
      in if d = 0 then Finite (s \<and> \<not> t) 0 (- 1074)
         else if 0 \<le> e0 then round_double (d < 0) (nat \<bar>d\<bar> * 2 ^ nat e0) 1
         else round_double (d < 0) (nat \<bar>d\<bar>) (2 ^ nat (- e0)))"

declare float_sub.simps [simp del]

definition float_gt0 :: "pyfloat \<Rightarrow> bool" where
  "float_gt0 x = (case x of Finite s m e \<Rightarrow> \<not> s \<and> 0 < m | Infinity s \<Rightarrow> \<not> s | NaN \<Rightarrow> False)"

subsection \<open>\<^verbatim>\<open>str(float)\<close>\<close>

text \<open>The integer \<open>E\<close> with \<open>10 ^ E \<le> p / q < 10 ^ (E + 1)\<close>, for positive \<open>p\<close> and \<open>q\<close>.\<close>

definition dec_exp :: "nat \<Rightarrow> nat \<Rightarrow> int" where
  "dec_exp p q =
     (if q \<le> p then int (length (nat_str (p div q))) - 1
      else - int (length (nat_str ((q + p - 1) div p - 1))))"

text \<open>
  The decimals with \<open>n\<close> significant digits next to \<open>p / q\<close> are \<open>lo * 10 ^ k\<close> and
  \<open>(lo + 1) * 10 ^ k\<close>. \<open>candidate\<close> gives the one that reads back as the double \<open>x\<close>,
  the nearer one (a tie to the even digit) when both do.
\<close>

definition reads_back :: "pyfloat \<Rightarrow> nat \<Rightarrow> int \<Rightarrow> bool" where
  "reads_back x c k =
     ((if 0 \<le> k then round_double False (c * 10 ^ nat k) 1
       else round_double False c (10 ^ nat (- k))) = x)"

definition candidate :: "nat \<Rightarrow> nat \<Rightarrow> pyfloat \<Rightarrow> nat \<Rightarrow> (nat \<times> int) option" where
  "candidate p q x n =
     (let k = dec_exp p q + 1 - int n;
          num = (if 0 \<le> k then p else p * 10 ^ nat (- k));
          den = (if 0 \<le> k then q * 10 ^ nat k else q);
          lo = num div den;
          r = num mod den;
          up = (den < 2 * r \<or> (den = 2 * r \<and> odd lo));
          ok_lo = reads_back x lo k;
          ok_hi = reads_back x (lo + 1) k
      in if ok_lo \<and> ok_hi then Some (if up then lo + 1 else lo, k)
         else if ok_lo then Some (lo, k)
         else if ok_hi then Some (lo + 1, k)
         else None)"

text \<open>The shortest digit string that reads back (\<^verbatim>\<open>_Py_dg_dtoa\<close> in mode 0); 17
  digits always do.\<close>

function shortest :: "nat \<Rightarrow> nat \<Rightarrow> pyfloat \<Rightarrow> nat \<Rightarrow> nat \<times> int" where
  "shortest p q x n =
     (if 17 \<le> n then (round_half_even
                          (if 0 \<le> dec_exp p q - 16 then p else p * 10 ^ nat (16 - dec_exp p q))
                          (if 0 \<le> dec_exp p q - 16 then q * 10 ^ nat (dec_exp p q - 16) else q),
                       dec_exp p q - 16)
      else (case candidate p q x n of Some r \<Rightarrow> r | None \<Rightarrow> shortest p q x (Suc n)))"
  by pat_completeness auto
termination
  by (relation "measure (\<lambda>(p, q, x, n). 17 - n)") auto

declare shortest.simps [simp del]

definition strip_zeros :: "string \<Rightarrow> string" where
  "strip_zeros ds = rev (dropWhile (\<lambda>c. c = CHR ''0'') (rev ds))"

text \<open>
  \<^verbatim>\<open>format_float_short\<close> with format code \<^verbatim>\<open>r\<close> and \<^verbatim>\<open>Py_DTSF_ADD_DOT_0\<close>: the value
  is \<open>0.ds * 10 ^ decpt\<close>; the exponent form is used when \<open>decpt \<le> -4\<close> or
  \<open>decpt > 16\<close>, with an exponent of at least two digits.
\<close>

definition format_digits :: "string \<Rightarrow> int \<Rightarrow> string" where
  "format_digits ds decpt =
     (if decpt \<le> - 4 \<or> 16 < decpt
      then (let ex = decpt - 1;
                es = nat_str (nat \<bar>ex\<bar>)
            in take 1 ds @ (if length ds \<le> 1 then [] else CHR ''.'' # drop 1 ds) @ ''e''
               @ (if ex < 0 then ''-'' else ''+'') @ (if length es < 2 then CHR ''0'' # es else es))
      else if decpt \<le> 0 then ''0.'' @ replicate (nat (- decpt)) CHR ''0'' @ ds
      else if nat decpt < length ds then take (nat decpt) ds @ ''.'' @ drop (nat decpt) ds
      else ds @ replicate (nat decpt - length ds) CHR ''0'' @ ''.0'')"

definition float_repr :: "pyfloat \<Rightarrow> string" where
  "float_repr x =
     (case x of
        NaN \<Rightarrow> ''nan''
      | Infinity s \<Rightarrow> (if s then ''-inf'' else ''inf'')
      | Finite s m e \<Rightarrow>
          (if s then ''-'' else []) @
          (if m = 0 then ''0.0''
           else
             let p = (if 0 \<le> e then m * 2 ^ nat e else m);
                 q = (if 0 \<le> e then 1 else 2 ^ nat (- e));
                 (c, k) = shortest p q (Finite False m e) 1;
                 ds = nat_str c
             in format_digits (strip_zeros ds) (int (length ds) + k)))"

subsection \<open>Numbers: \<^verbatim>\<open>int\<close> and \<^verbatim>\<open>float\<close>\<close>

text \<open>
  The weights are either the \<^verbatim>\<open>int\<close> literal \<^verbatim>\<open>0\<close> or a \<^verbatim>\<open>float\<close>. In mixed
  arithmetic the \<^verbatim>\<open>int\<close> is converted to a \<^verbatim>\<open>float\<close>, which raises
  \<^verbatim>\<open>OverflowError\<close> when it is too large; \<^verbatim>\<open>str\<close> of an \<^verbatim>\<open>int\<close> has no decimal
  point.
\<close>

datatype pynum = PyInt int | PyFloat pyfloat

definition int_to_float :: "int \<Rightarrow> pyerr + pyfloat" where
  "int_to_float i =
     (case round_double (i < 0) (nat \<bar>i\<bar>) 1 of
        Infinity s \<Rightarrow> Inl OverflowError
      | x \<Rightarrow> Inr x)"

fun py_sub :: "pynum \<Rightarrow> pynum \<Rightarrow> pyerr + pynum" where
  "py_sub (PyInt i) (PyInt j) = Inr (PyInt (i - j))"
| "py_sub (PyInt i) (PyFloat y) =
     (case int_to_float i of Inl err \<Rightarrow> Inl err | Inr x \<Rightarrow> Inr (PyFloat (float_sub x y)))"
| "py_sub (PyFloat x) (PyInt j) =
     (case int_to_float j of Inl err \<Rightarrow> Inl err | Inr y \<Rightarrow> Inr (PyFloat (float_sub x y)))"
| "py_sub (PyFloat x) (PyFloat y) = Inr (PyFloat (float_sub x y))"

fun py_gt0 :: "pynum \<Rightarrow> bool" where
  "py_gt0 (PyInt i) = (0 < i)"
| "py_gt0 (PyFloat x) = float_gt0 x"

fun py_str :: "pynum \<Rightarrow> string" where
  "py_str (PyInt i) = int_str i"
| "py_str (PyFloat x) = float_repr x"

section \<open>Row derivation\<close>

text \<open>
  The extracted data is the parsed JSON object: \<^verbatim>\<open>challan_info\<close> a dictionary,
  \<^verbatim>\<open>table_data\<close> a list of dictionaries, either key possibly absent. The values of
  the dictionaries are strings, as the extraction prompt asks and the data model of the
  specification says. (On a value that is not a string \<^verbatim>\<open>.strip()\<close> raises
  \<^verbatim>\<open>AttributeError\<close>; such documents are outside this model.)
\<close>

type_synonym pydict = "string \<rightharpoonup> string"

definition dict_get :: "pydict \<Rightarrow> string \<Rightarrow> string \<Rightarrow> string" where
  "dict_get d k dflt = (case d k of None \<Rightarrow> dflt | Some v \<Rightarrow> v)"

record extracted_data =
  challan_info :: "pydict option"
  table_data :: "pydict list option"

text \<open>\<^verbatim>\<open>datetime.now()\<close> and its two \<^verbatim>\<open>strftime\<close> formats, \<^verbatim>\<open>%Y-%m-%d\<close> and
  \<^verbatim>\<open>%Y-%m-%d %H:%M:%S\<close>: zero-padded decimal fields (the year of a clock reading has
  four digits).\<close>

record datetime =
  year :: nat
  month :: nat
  day :: nat
  hour :: nat
  minute :: nat
  second :: nat
  microsecond :: nat

definition pad :: "nat \<Rightarrow> nat \<Rightarrow> string" where
  "pad w n = replicate (w - length (nat_str n)) CHR ''0'' @ nat_str n"

definition strftime_date :: "datetime \<Rightarrow> string" where
  "strftime_date dt = pad 4 (year dt) @ ''-'' @ pad 2 (month dt) @ ''-'' @ pad 2 (day dt)"

definition strftime_timestamp :: "datetime \<Rightarrow> string" where
  "strftime_timestamp dt =
     strftime_date dt @ '' '' @ pad 2 (hour dt) @ '':'' @ pad 2 (minute dt) @ '':''
       @ pad 2 (second dt)"

text \<open>\<^verbatim>\<open>except (ValueError, TypeError): x = dflt\<close> around a computation of \<open>x\<close>;
  any other exception propagates.\<close>

definition except_value_type :: "'a \<Rightarrow> pyerr + 'a \<Rightarrow> pyerr + 'a" where
  "except_value_type dflt r =
     (case r of
        Inl ValueError \<Rightarrow> Inr dflt
      | Inl TypeError \<Rightarrow> Inr dflt
      | Inl err \<Rightarrow> Inl err
      | Inr v \<Rightarrow> Inr v)"

text \<open>\<^verbatim>\<open>item.get('description', '').strip()\<close>\<close>

definition item_description :: "pydict \<Rightarrow> string" where
  "item_description item = strip (dict_get item ''description'' [])"

text \<open>\<^verbatim>\<open>weight_received\<close> after lines 230 to 232: trimmed, and \<^verbatim>\<open>'0'\<close> when empty.\<close>

definition item_weight_received :: "pydict \<Rightarrow> string" where
  "item_weight_received item =
     (let weight_received = strip (dict_get item ''weight_received'' [])
      in if weight_received = [] \<or> weight_received = [] then ''0'' else weight_received)"

text \<open>\<^verbatim>\<open>float(weight_received) if weight_received != '0' else 0\<close>\<close>

definition weight_received_num :: "string \<Rightarrow> pyerr + pynum" where
  "weight_received_num weight_received =
     (if weight_received \<noteq> ''0'' then map_sum id PyFloat (py_float weight_received)
      else Inr (PyInt 0))"

text \<open>\<^verbatim>\<open>float(item.get('weight_sent', '0')) if item.get('weight_sent', '').strip() else 0\<close>\<close>

definition weight_sent_num :: "pydict \<Rightarrow> pyerr + pynum" where
  "weight_sent_num item =
     (if strip (dict_get item ''weight_sent'' []) \<noteq> []
      then map_sum id PyFloat (py_float (dict_get item ''weight_sent'' ''0''))
      else Inr (PyInt 0))"

text \<open>The two \<^verbatim>\<open>try\<close> blocks of the loop body, lines 235 to 239 and 242 to 247.\<close>

definition compute_status :: "string \<Rightarrow> pyerr + string" where
  "compute_status weight_received =
     except_value_type ''Not Received''
       (case weight_received_num weight_received of
          Inl err \<Rightarrow> Inl err
        | Inr n \<Rightarrow> Inr (if py_gt0 n then ''Received'' else ''Not Received''))"

definition compute_difference :: "pydict \<Rightarrow> string \<Rightarrow> pyerr + pynum" where
  "compute_difference item weight_received =
     except_value_type (PyInt 0)
       (case weight_sent_num item of
          Inl err \<Rightarrow> Inl err
        | Inr sent \<Rightarrow>
            (case weight_received_num weight_received of
               Inl err \<Rightarrow> Inl err
             | Inr received \<Rightarrow> py_sub sent received))"

type_synonym row = "string list"

text \<open>The body of the loop after the \<^verbatim>\<open>continue\<close>: the row of an item whose
  description is not blank.\<close>

definition make_row :: "pydict \<Rightarrow> string \<Rightarrow> string \<Rightarrow> pydict \<Rightarrow> pyerr + row" where
  "make_row info current_date current_timestamp item =
     (let weight_received = item_weight_received item
      in case compute_status weight_received of
           Inl err \<Rightarrow> Inl err
         | Inr status \<Rightarrow>
             (case compute_difference item weight_received of
                Inl err \<Rightarrow> Inl err
              | Inr difference \<Rightarrow>
                  Inr [dict_get info ''challan_number'' [],
                       dict_get info ''vendor_name'' [],
                       item_description item,
                       dict_get item ''weight_sent'' [],
                       weight_received,
                       status,
                       [],
                       py_str difference,
                       dict_get item ''number_of_bags'' [],
                       dict_get item ''plating_color'' [],
                       [],
                       current_date,
                       current_timestamp]))"

text \<open>\<^verbatim>\<open>for item in table_data\<close>, with the rows collected so far.\<close>

fun rows_loop :: "pydict \<Rightarrow> string \<Rightarrow> string \<Rightarrow> pydict list \<Rightarrow> row list \<Rightarrow> pyerr + row list" where
  "rows_loop info current_date current_timestamp [] rows = Inr rows"
| "rows_loop info current_date current_timestamp (item # items) rows =
     (if item_description item = [] then rows_loop info current_date current_timestamp items rows
      else (case make_row info current_date current_timestamp item of
              Inl err \<Rightarrow> Inl err
            | Inr row \<Rightarrow> rows_loop info current_date current_timestamp items (rows @ [row])))"

definition fallback_row :: "pydict \<Rightarrow> string \<Rightarrow> string \<Rightarrow> row" where
  "fallback_row info current_date current_timestamp =
     [dict_get info ''challan_number'' [],
      dict_get info ''vendor_name'' [],
      [],
      [],
      ''0'',
      ''Not Received'',
      [],
      ''0'',
      [],
      [],
      [],
      current_date,
      current_timestamp]"

text \<open>
  Lines 212 to 284 of \<^verbatim>\<open>send_to_google_sheets\<close>: the rows sent. The clock is read
  twice, once for the date (\<open>now1\<close>) and once for the timestamp (\<open>now2\<close>).
\<close>

definition build_rows :: "extracted_data \<Rightarrow> datetime \<Rightarrow> datetime \<Rightarrow> pyerr + row list" where
  "build_rows data now1 now2 =
     (let info = (case challan_info data of None \<Rightarrow> Map.empty | Some d \<Rightarrow> d);
          items = (case table_data data of None \<Rightarrow> [] | Some l \<Rightarrow> l);
          current_date = strftime_date now1;
          current_timestamp = strftime_timestamp now2
      in case rows_loop info current_date current_timestamp items [] of
           Inl err \<Rightarrow> Inl err
         | Inr rows \<Rightarrow>
             Inr (if rows = [] then [fallback_row info current_date current_timestamp] else rows))"

text \<open>The whole function: the rows are posted (\<open>post\<close> stands for the network and the
  endpoint) and the reply is classified. An exception of the row derivation is raised
  before the \<^verbatim>\<open>try\<close> block and leaves the function.\<close>

definition send_to_google_sheets ::
  "extracted_data \<Rightarrow> datetime \<Rightarrow> datetime \<Rightarrow> (row list \<Rightarrow> post_result) \<Rightarrow> pyerr + outcome" where
  "send_to_google_sheets data now1 now2 post =
     (case build_rows data now1 now2 of
        Inl err \<Rightarrow> Inl err
      | Inr rows \<Rightarrow> Inr (submit (length rows) (post rows)))"

section \<open>The worked example of the specification\<close>

text \<open>
  The document with challan number \<open>J1\<close>, vendor \<open>V1\<close> and the one line item \<open>Bolt\<close>,
  processed at 2024-01-02 10:00:00; and three variants of the item: with a received
  weight, with a weight sent that is not a number, and with a blank description.
\<close>

definition example_item :: pydict where
  "example_item = [''description'' \<mapsto> ''Bolt'', ''weight_sent'' \<mapsto> ''10'',
     ''weight_received'' \<mapsto> [], ''number_of_bags'' \<mapsto> ''2'', ''plating_color'' \<mapsto> ''Zinc'']"

definition example_info :: pydict where
  "example_info = [''challan_number'' \<mapsto> ''J1'', ''vendor_name'' \<mapsto> ''V1'',
     ''date'' \<mapsto> ''2024-01-01'']"

definition example_data :: extracted_data where
  "example_data = \<lparr>challan_info = Some example_info, table_data = Some [example_item]\<rparr>"

definition example_clock :: datetime where
  "example_clock = \<lparr>year = 2024, month = 1, day = 2, hour = 10, minute = 0, second = 0,
     microsecond = 0\<rparr>"

definition received_item :: pydict where
  "received_item = example_item(''weight_received'' \<mapsto> ''4'')"


definition blank_item :: pydict where
  "blank_item = [''description'' \<mapsto> ''  '']"

section \<open>Substring tests and trimming\<close>

lemma starts_with_iff: "starts_with p s \<longleftrightarrow> (\<exists>t. s = p @ t)"
  by (induction p s rule: starts_with.induct) auto

lemma contains_iff: "contains sub s \<longleftrightarrow> (\<exists>ps ss. s = ps @ sub @ ss)"
proof (induction s)
  case Nil
  then show ?case by simp
next
  case (Cons x xs)
  show ?case
  proof
    assume "contains sub (x # xs)"
    then consider "starts_with sub (x # xs)" | "contains sub xs" by auto
    then show "\<exists>ps ss. x # xs = ps @ sub @ ss"
    proof cases
      case 1
      then obtain t where "x # xs = sub @ t" by (auto simp: starts_with_iff)
      then have "x # xs = [] @ sub @ t" by simp
      then show ?thesis by blast
    next
      case 2
      with Cons.IH obtain ps ss where "xs = ps @ sub @ ss" by blast
      then have "x # xs = (x # ps) @ sub @ ss" by simp
      then show ?thesis by blast
    qed
  next
    assume "\<exists>ps ss. x # xs = ps @ sub @ ss"
    then obtain ps ss where eq: "x # xs = ps @ sub @ ss" by blast
    show "contains sub (x # xs)"
    proof (cases ps)
      case Nil
      with eq have "starts_with sub (x # xs)" by (auto simp: starts_with_iff)
      then show ?thesis by simp
    next
      case (Cons p ps')
      with eq have "xs = ps' @ sub @ ss" by simp
      with Cons.IH have "contains sub xs" by blast
      then show ?thesis by simp
    qed
  qed
qed

lemma contains_rev: "contains (rev sub) (rev s) = contains sub s"
proof -
  have "(\<exists>ps ss. rev s = ps @ rev sub @ ss) \<longleftrightarrow> (\<exists>ps ss. s = ps @ sub @ ss)"
  proof
    assume "\<exists>ps ss. rev s = ps @ rev sub @ ss"
    then obtain ps ss where "rev s = ps @ rev sub @ ss" by blast
    then have "rev (rev s) = rev (ps @ rev sub @ ss)" by simp
    then have "s = rev ss @ sub @ rev ps" by simp
    then show "\<exists>ps ss. s = ps @ sub @ ss" by blast
  next
    assume "\<exists>ps ss. s = ps @ sub @ ss"
    then obtain ps ss where "s = ps @ sub @ ss" by blast
    then have "rev s = rev ss @ rev sub @ rev ps" by simp
    then show "\<exists>ps ss. rev s = ps @ rev sub @ ss" by blast
  qed
  then show ?thesis by (simp add: contains_iff)
qed

lemma contains_dropWhile:
  assumes "\<not> P a"
  shows "contains (a # r) (dropWhile P s) = contains (a # r) s"
  using assms by (induction s) auto

lemma contains_strip:
  assumes "sub \<noteq> []" and "\<not> py_isspace (hd sub)" and "\<not> py_isspace (last sub)"
  shows "contains sub (strip s) = contains sub s"
proof -
  obtain a r where sub: "sub = a # r" using assms(1) by (cases sub) auto
  obtain b q where rsub: "rev sub = b # q" using assms(1) by (cases "rev sub") auto
  have b: "b = last sub" using rsub assms(1) by (metis last_rev list.sel(1) rev_rev_ident hd_rev)
  have "contains sub (strip s) = contains (rev sub) (dropWhile py_isspace (rev (dropWhile py_isspace s)))"
    unfolding strip_def using contains_rev [of "rev sub"] by simp
  also have "\<dots> = contains (rev sub) (rev (dropWhile py_isspace s))"
    unfolding rsub using assms(3) b by (intro contains_dropWhile) simp
  also have "\<dots> = contains sub (dropWhile py_isspace s)"
    by (rule contains_rev)
  also have "\<dots> = contains sub s"
    unfolding sub using assms(2) sub by (intro contains_dropWhile) simp
  finally show ?thesis .
qed

text \<open>The four texts looked for begin and end with a letter, so trimming the reply does
  not change whether one of them occurs.\<close>

lemma known_substrings_strip:
  "contains ''Success'' (strip s) = contains ''Success'' s"
  "contains ''Unauthorized'' (strip s) = contains ''Unauthorized'' s"
  "contains ''Invalid data format'' (strip s) = contains ''Invalid data format'' s"
  "contains ''No postData received'' (strip s) = contains ''No postData received'' s"
  by (rule contains_strip; simp add: py_isspace_def)+

section \<open>Properties of the sheet submission\<close>

lemma nat_str_404: "nat_str 404 = ''404''"
  by (simp add: nat_str.simps)

lemma raise_for_status_None:
  "status_code r < 400 \<or> 600 \<le> status_code r \<Longrightarrow> raise_for_status r = None"
  by (auto simp: raise_for_status_def)

lemma raise_for_status_Some:
  "400 \<le> status_code r \<Longrightarrow> status_code r < 600 \<Longrightarrow> \<exists>msg. raise_for_status r = Some msg"
  by (auto simp: raise_for_status_def)


text \<open>
  Claim C8, as amended. For a reply with a 2xx status the body is classified in priority
  order: \<open>Success\<close> first (with the row count), so a body containing both \<open>Success\<close> and
  \<open>Unauthorized\<close> is a success; then \<open>Unauthorized\<close>, \<open>Invalid data format\<close>,
  \<open>No postData received\<close>; any other body gives the unknown-response outcome, which
  carries the body with the whitespace at both ends removed.
\<close>

theorem classification_priority:
  assumes "200 \<le> status_code r" and "status_code r < 300"
  shows "submit n (Returned r) =
           (if contains ''Success'' (body r) then Success n
            else if contains ''Unauthorized'' (body r) then AuthRejected
            else if contains ''Invalid data format'' (body r) then FormatRejected
            else if contains ''No postData received'' (body r) then EmptyPayloadRejected
            else UnknownResponse (strip (body r)))
         \<and> (contains ''Success'' (body r) \<and> contains ''Unauthorized'' (body r)
               \<longrightarrow> submit n (Returned r) = Success n)"
proof -
  have "raise_for_status r = None"
    using assms by (intro raise_for_status_None) simp
  then show ?thesis
    by (simp add: submit_def classify_text_def known_substrings_strip)
qed

text \<open>Claim C8, witness: a 2xx reply whose body contains both words.\<close>

theorem classification_priority_witness:
  "200 \<le> status_code \<lparr>status_code = 200, reason = ''OK'', url = ''u'', body = ''Unauthorized Success''\<rparr>
   \<and> status_code \<lparr>status_code = 200, reason = ''OK'', url = ''u'', body = ''Unauthorized Success''\<rparr> < 300
   \<and> contains ''Success'' ''Unauthorized Success''
   \<and> contains ''Unauthorized'' ''Unauthorized Success''
   \<and> submit 3 (Returned \<lparr>status_code = 200, reason = ''OK'', url = ''u'', body = ''Unauthorized Success''\<rparr>)
       = Success 3"
  using classification_priority
    [of "\<lparr>status_code = 200, reason = ''OK'', url = ''u'', body = ''Unauthorized Success''\<rparr>" 3]
  by simp

text \<open>Claim C8, counterexample to the unknown-response outcome carrying the raw body: for
  the body \<open>'' x ''\<close> it carries \<open>''x''\<close>.\<close>

theorem unknown_response_body_counterexample:
  "200 \<le> status_code \<lparr>status_code = 200, reason = ''OK'', url = ''u'', body = '' x ''\<rparr>
   \<and> status_code \<lparr>status_code = 200, reason = ''OK'', url = ''u'', body = '' x ''\<rparr> < 300
   \<and> \<not> contains ''Success'' '' x '' \<and> \<not> contains ''Unauthorized'' '' x ''
   \<and> \<not> contains ''Invalid data format'' '' x '' \<and> \<not> contains ''No postData received'' '' x ''
   \<and> submit 1 (Returned \<lparr>status_code = 200, reason = ''OK'', url = ''u'', body = '' x ''\<rparr>)
       = UnknownResponse ''x''
   \<and> submit 1 (Returned \<lparr>status_code = 200, reason = ''OK'', url = ''u'', body = '' x ''\<rparr>)
       \<noteq> UnknownResponse '' x ''"
  by (simp add: submit_def raise_for_status_def classify_text_def strip_def py_isspace_def)

text \<open>
  Claim C3, as amended. A reply with a status from 400 to 599 makes
  \<^verbatim>\<open>raise_for_status\<close> raise, and the outcome is the network error carrying the message
  of the HTTP error, whatever the body. A reply with any other status (the other non-2xx
  ones included) whose body contains none of the four known texts gives the
  unknown-response outcome.
\<close>

theorem http_error_classification:
  "(400 \<le> status_code r \<and> status_code r < 600
      \<longrightarrow> (\<exists>msg. raise_for_status r = Some msg \<and> submit n (Returned r) = NetworkError msg))
   \<and> ((status_code r < 400 \<or> 600 \<le> status_code r)
        \<and> \<not> contains ''Success'' (body r) \<and> \<not> contains ''Unauthorized'' (body r)
        \<and> \<not> contains ''Invalid data format'' (body r)
        \<and> \<not> contains ''No postData received'' (body r)
      \<longrightarrow> submit n (Returned r) = UnknownResponse (strip (body r)))"
proof (intro conjI impI)
  assume "400 \<le> status_code r \<and> status_code r < 600"
  then obtain msg where "raise_for_status r = Some msg"
    using raise_for_status_Some by blast
  then show "\<exists>msg. raise_for_status r = Some msg \<and> submit n (Returned r) = NetworkError msg"
    by (simp add: submit_def)
next
  assume a: "(status_code r < 400 \<or> 600 \<le> status_code r)
        \<and> \<not> contains ''Success'' (body r) \<and> \<not> contains ''Unauthorized'' (body r)
        \<and> \<not> contains ''Invalid data format'' (body r)
        \<and> \<not> contains ''No postData received'' (body r)"
  then have "raise_for_status r = None"
    by (intro raise_for_status_None) simp
  with a show "submit n (Returned r) = UnknownResponse (strip (body r))"
    by (simp add: submit_def classify_text_def known_substrings_strip)
qed

text \<open>Claim C3, witness: a 404 reply and a 302 reply.\<close>

theorem http_error_classification_witness:
  "(400 \<le> status_code \<lparr>status_code = 404, reason = ''Not Found'', url = ''u'', body = ''oops''\<rparr>
    \<and> status_code \<lparr>status_code = 404, reason = ''Not Found'', url = ''u'', body = ''oops''\<rparr> < 600)
   \<and> (\<exists>msg. submit 1 (Returned \<lparr>status_code = 404, reason = ''Not Found'', url = ''u'', body = ''oops''\<rparr>)
         = NetworkError msg)
   \<and> status_code \<lparr>status_code = 302, reason = ''Found'', url = ''u'', body = '' moved ''\<rparr> < 400
   \<and> \<not> contains ''Success'' '' moved '' \<and> \<not> contains ''Unauthorized'' '' moved ''
   \<and> \<not> contains ''Invalid data format'' '' moved ''
   \<and> \<not> contains ''No postData received'' '' moved ''
   \<and> submit 1 (Returned \<lparr>status_code = 302, reason = ''Found'', url = ''u'', body = '' moved ''\<rparr>)
       = UnknownResponse (strip '' moved '')"
  using http_error_classification
    [of "\<lparr>status_code = 404, reason = ''Not Found'', url = ''u'', body = ''oops''\<rparr>" 1]
    http_error_classification
    [of "\<lparr>status_code = 302, reason = ''Found'', url = ''u'', body = '' moved ''\<rparr>" 1]
  by auto

text \<open>Claim C3, counterexample: a 404 reply with none of the known texts in its body is
  classified as a network error, not as an unknown response.\<close>

theorem non_2xx_network_error_counterexample:
  "\<not> (200 \<le> status_code \<lparr>status_code = 404, reason = ''Not Found'', url = ''u'', body = ''oops''\<rparr>
       \<and> status_code \<lparr>status_code = 404, reason = ''Not Found'', url = ''u'', body = ''oops''\<rparr> < 300)
   \<and> \<not> contains ''Success'' ''oops'' \<and> \<not> contains ''Unauthorized'' ''oops''
   \<and> \<not> contains ''Invalid data format'' ''oops'' \<and> \<not> contains ''No postData received'' ''oops''
   \<and> submit 1 (Returned \<lparr>status_code = 404, reason = ''Not Found'', url = ''u'', body = ''oops''\<rparr>)
       = NetworkError ''404 Client Error: Not Found for url: u''"
  by (simp add: submit_def raise_for_status_def int_str_def nat_str_404)

section \<open>Properties of the extraction\<close>

text \<open>
  Claim C2 says that a response text without \<^verbatim>\<open>{\<close> or without \<^verbatim>\<open>}\<close> is reported
  as "no JSON found" and that no parse is attempted. The source compares
  \<^verbatim>\<open>content.rfind('}') + 1\<close> with \<open>-1\<close>, which never holds: for the response text
  \<^verbatim>\<open>{\<close>, which has no \<^verbatim>\<open>}\<close>, the empty candidate is passed to \<^verbatim>\<open>json.loads\<close>.
\<close>

theorem missing_close_brace_attempts_parse:
  "CHR ''}'' \<notin> set ''{'' \<and> analyze_image_with_gemini ''{'' = JsonLoads []"
  by (simp add: analyze_image_with_gemini_def strip_def py_isspace_def rfind_char_def
      py_slice_def slice_index_def)

text \<open>The test for \<^verbatim>\<open>{\<close> works; the test for \<^verbatim>\<open>}\<close> has no effect: whenever
  \<^verbatim>\<open>{\<close> occurs, a parse is attempted.\<close>

lemma no_open_brace:
  assumes "response_text \<noteq> []" and "CHR ''{'' \<notin> set (strip response_text)"
  shows "analyze_image_with_gemini response_text = NoJsonFound (strip response_text)"
proof -
  have "find_char c s = - 1" if "c \<notin> set s" for c s
    using that by (induction s) (auto simp: Let_def)
  with assms show ?thesis
    by (simp add: analyze_image_with_gemini_def Let_def)
qed

lemma open_brace_always_parses:
  assumes "CHR ''{'' \<in> set (strip response_text)"
  shows "\<exists>json_str. analyze_image_with_gemini response_text = JsonLoads json_str"
proof -
  have f: "0 \<le> find_char c s" if "c \<in> set s" for c s
    using that by (induction s) (auto simp: Let_def)
  have g: "- 1 \<le> find_char c s" for c s
    by (induction s) (auto simp: Let_def)
  have l: "find_char c s < int (length s)" for c s
    by (induction s) (auto simp: Let_def)
  have r: "0 \<le> rfind_char c s + 1" for c s
    using l [of c "rev s"] by (auto simp: rfind_char_def Let_def)
  from assms have "response_text \<noteq> []"
    by (auto simp: strip_def)
  with assms show ?thesis
    using f [of "CHR ''{''" "strip response_text"] r [of "CHR ''}''" "strip response_text"]
    by (auto simp: analyze_image_with_gemini_def Let_def)
qed

section \<open>Properties of the row derivation\<close>

subsection \<open>No exception leaves the loop body\<close>

text \<open>\<^verbatim>\<open>float\<close> of a string raises nothing but \<^verbatim>\<open>ValueError\<close>, which both handlers
  catch; the only \<^verbatim>\<open>int\<close> that meets a \<^verbatim>\<open>float\<close> is \<open>0\<close>, which converts.\<close>

lemma py_float_error: "py_float v = Inl err \<Longrightarrow> err = ValueError"
  by (auto simp: py_float_def Let_def split: option.splits if_splits prod.splits)

lemma weight_received_num_cases:
  "weight_received_num wr = Inl ValueError
   \<or> weight_received_num wr = Inr (PyInt 0)
   \<or> (\<exists>x. weight_received_num wr = Inr (PyFloat x))"
proof (cases "py_float wr")
  case (Inl err)
  then show ?thesis using py_float_error [OF Inl] by (simp add: weight_received_num_def)
next
  case (Inr x)
  then show ?thesis by (simp add: weight_received_num_def)
qed

lemma weight_sent_num_cases:
  "weight_sent_num item = Inl ValueError
   \<or> weight_sent_num item = Inr (PyInt 0)
   \<or> (\<exists>x. weight_sent_num item = Inr (PyFloat x))"
proof (cases "py_float (dict_get item ''weight_sent'' ''0'')")
  case (Inl err)
  then show ?thesis using py_float_error [OF Inl] by (simp add: weight_sent_num_def)
next
  case (Inr x)
  then show ?thesis by (simp add: weight_sent_num_def)
qed

lemma int_to_float_0: "int_to_float 0 = Inr (Finite False 0 (- 1074))"
  by (simp add: int_to_float_def round_double_def)

lemma py_sub_total:
  assumes "a = PyInt 0 \<or> (\<exists>x. a = PyFloat x)" and "b = PyInt 0 \<or> (\<exists>y. b = PyFloat y)"
  shows "\<exists>d. py_sub a b = Inr d"
  using assms by (auto simp: int_to_float_0)

lemma compute_status_total: "\<exists>status. compute_status wr = Inr status"
  using weight_received_num_cases [of wr]
  by (auto simp: compute_status_def except_value_type_def)

lemma compute_difference_total: "\<exists>difference. compute_difference item wr = Inr difference"
proof -
  consider "weight_sent_num item = Inl ValueError"
    | "weight_received_num wr = Inl ValueError"
    | a b where "weight_sent_num item = Inr a" "weight_received_num wr = Inr b"
        "a = PyInt 0 \<or> (\<exists>x. a = PyFloat x)" "b = PyInt 0 \<or> (\<exists>y. b = PyFloat y)"
    using weight_sent_num_cases [of item] weight_received_num_cases [of wr] by auto
  then show ?thesis
  proof cases
    case 1
    then show ?thesis by (simp add: compute_difference_def except_value_type_def)
  next
    case 2
    then show ?thesis
      using weight_sent_num_cases [of item]
      by (auto simp: compute_difference_def except_value_type_def)
  next
    case 3
    from py_sub_total [OF 3(3) 3(4)] obtain d where "py_sub a b = Inr d" by blast
    with 3 show ?thesis by (simp add: compute_difference_def except_value_type_def)
  qed
qed

lemma make_row_eq:
  "\<exists>status difference.
     compute_status (item_weight_received item) = Inr status
     \<and> compute_difference item (item_weight_received item) = Inr difference
     \<and> make_row info d t item =
         Inr [dict_get info ''challan_number'' [], dict_get info ''vendor_name'' [],
              item_description item, dict_get item ''weight_sent'' [],
              item_weight_received item, status, [], py_str difference,
              dict_get item ''number_of_bags'' [], dict_get item ''plating_color'' [], [], d, t]"
proof -
  obtain status where s: "compute_status (item_weight_received item) = Inr status"
    using compute_status_total by blast
  obtain difference where
    df: "compute_difference item (item_weight_received item) = Inr difference"
    using compute_difference_total by blast
  show ?thesis
    using s df by (simp add: make_row_def Let_def)
qed

subsection \<open>The loop and the rows\<close>

text \<open>The loop appends, in order, the row of each item whose description is not blank.\<close>

lemma rows_loop_char:
  "\<exists>rs. rows_loop info d t items acc = Inr (acc @ rs)
        \<and> map Inr rs = map (make_row info d t) (filter (\<lambda>item. item_description item \<noteq> []) items)"
proof (induction items arbitrary: acc)
  case Nil
  then show ?case by simp
next
  case (Cons item items)
  show ?case
  proof (cases "item_description item = []")
    case True
    with Cons.IH [of acc] show ?thesis by simp
  next
    case False
    obtain row where row: "make_row info d t item = Inr row"
      using make_row_eq [of item info d t] by blast
    from Cons.IH [of "acc @ [row]"] obtain rs where
      rs: "rows_loop info d t items (acc @ [row]) = Inr ((acc @ [row]) @ rs)"
          "map Inr rs = map (make_row info d t) (filter (\<lambda>item. item_description item \<noteq> []) items)"
      by blast
    have "rows_loop info d t (item # items) acc = Inr (acc @ (row # rs))"
      using False row rs(1) by simp
    moreover have "map Inr (row # rs) =
        map (make_row info d t) (filter (\<lambda>item. item_description item \<noteq> []) (item # items))"
      using False row rs(2) by simp
    ultimately show ?thesis by blast
  qed
qed

lemma build_rows_char:
  fixes data :: extracted_data
  defines "info \<equiv> (case challan_info data of None \<Rightarrow> Map.empty | Some d \<Rightarrow> d)"
  defines "qs \<equiv> filter (\<lambda>item. item_description item \<noteq> [])
                   (case table_data data of None \<Rightarrow> [] | Some l \<Rightarrow> l)"
  shows "\<exists>rows. build_rows data now1 now2 = Inr rows
           \<and> (if qs = [] then rows = [fallback_row info (strftime_date now1) (strftime_timestamp now2)]
              else map Inr rows = map (make_row info (strftime_date now1) (strftime_timestamp now2)) qs)"
proof -
  obtain rs where
    rs: "rows_loop info (strftime_date now1) (strftime_timestamp now2)
           (case table_data data of None \<Rightarrow> [] | Some l \<Rightarrow> l) [] = Inr ([] @ rs)"
        "map Inr rs = map (make_row info (strftime_date now1) (strftime_timestamp now2)) qs"
    unfolding qs_def using rows_loop_char by blast
  have e: "rs = [] \<longleftrightarrow> qs = []"
    using rs(2) by (metis map_is_Nil_conv)
  show ?thesis
    using rs e by (auto simp: build_rows_def Let_def info_def)
qed

lemma build_rows_nth:
  fixes data :: extracted_data
  defines "info \<equiv> (case challan_info data of None \<Rightarrow> Map.empty | Some d \<Rightarrow> d)"
  defines "qs \<equiv> filter (\<lambda>item. item_description item \<noteq> [])
                   (case table_data data of None \<Rightarrow> [] | Some l \<Rightarrow> l)"
  assumes "qs \<noteq> []"
  shows "\<exists>rows. build_rows data now1 now2 = Inr rows \<and> length rows = length qs
           \<and> (\<forall>i<length qs.
                 make_row info (strftime_date now1) (strftime_timestamp now2) (qs ! i) = Inr (rows ! i))"
proof -
  obtain rows where
    rows: "build_rows data now1 now2 = Inr rows"
          "map Inr rows = map (make_row info (strftime_date now1) (strftime_timestamp now2)) qs"
    using build_rows_char [of data now1 now2] assms(3) unfolding info_def qs_def by auto
  have len: "length rows = length qs"
    using rows(2) by (metis length_map)
  have "make_row info (strftime_date now1) (strftime_timestamp now2) (qs ! i) = Inr (rows ! i)"
    if "i < length qs" for i
  proof -
    have "map (make_row info (strftime_date now1) (strftime_timestamp now2)) qs ! i
        = map Inr rows ! i"
      by (simp only: rows(2))
    then show ?thesis using that len by simp
  qed
  with rows(1) len show ?thesis by blast
qed


subsection \<open>Evaluating floats\<close>

text \<open>The bit length of a binary numeral, read off its digits.\<close>

lemma bitlen_numeral:
  "bitlen 0 = 0"
  "bitlen (Suc 0) = 1"
  "bitlen (numeral num.One) = 1"
  "bitlen (numeral (num.Bit0 n)) = bitlen (numeral n) + 1"
  "bitlen (numeral (num.Bit1 n)) = bitlen (numeral n) + 1"
  by (subst bitlen.simps, simp add: bitlen.simps)+

lemmas py_float_eval =
  py_float_def strtod_def parse_sign_def parse_exponent_def is_digit_def digit_val_def
  digits_val_def strip_c_def c_isspace_def round_double_def ilog2_def bitlen_numeral
  round_half_even_def Let_def

lemma py_float_0: "py_float ''0'' = Inr (Finite False 0 (- 1074))"
  by (simp add: py_float_eval)

lemma nat_str_digit: "n < 10 \<Longrightarrow> nat_str n = [''0123456789'' ! n]"
  by (simp add: nat_str.simps)


subsection \<open>Status and difference of a row\<close>

lemma compute_status_eq:
  "compute_status wr =
     Inr (if wr \<noteq> ''0'' \<and> (\<exists>x. py_float wr = Inr x \<and> float_gt0 x)
          then ''Received'' else ''Not Received'')"
proof (cases "py_float wr")
  case (Inl err)
  then show ?thesis using py_float_error [OF Inl]
    by (simp add: compute_status_def weight_received_num_def except_value_type_def)
next
  case (Inr x)
  then show ?thesis
    by (simp add: compute_status_def weight_received_num_def except_value_type_def)
qed

lemma item_weight_received_eq:
  "item_weight_received item =
     (if strip (dict_get item ''weight_received'' []) = [] then ''0''
      else strip (dict_get item ''weight_received'' []))"
  by (simp add: item_weight_received_def Let_def)

lemma weight_sent_num_eq:
  "weight_sent_num item =
     (if strip (dict_get item ''weight_sent'' []) = [] then Inr (PyInt 0)
      else map_sum id PyFloat (py_float (dict_get item ''weight_sent'' [])))"
  by (cases "item ''weight_sent''") (simp_all add: weight_sent_num_def dict_get_def strip_def)

text \<open>
  Claim C4. Let the \<open>i\<close>-th item with a non-blank description be given (it yields the
  \<open>i\<close>-th row), and let \<open>wr\<close> be its \<^verbatim>\<open>weight_received\<close>, trimmed and with \<^verbatim>\<open>'0'\<close> for
  the empty text. The derivation returns its rows, the status computation returns without
  an exception and its result is the status field (index 5) of the row. If \<open>wr\<close> parses
  as a number greater than zero the status is \<open>Received\<close>; if \<open>wr\<close> is the literal \<open>0\<close>
  or does not parse, it is \<open>Not Received\<close>. (The number is the \<^verbatim>\<open>float\<close> that
  \<^verbatim>\<open>float(wr)\<close> returns.)
\<close>

theorem status_of_row:
  fixes data :: extracted_data
  defines "qs \<equiv> filter (\<lambda>item. item_description item \<noteq> [])
                   (case table_data data of None \<Rightarrow> [] | Some l \<Rightarrow> l)"
  defines "wr \<equiv> \<lambda>item. (if strip (dict_get item ''weight_received'' []) = [] then ''0''
                        else strip (dict_get item ''weight_received'' []))"
  assumes "i < length qs"
  shows "\<exists>rows. build_rows data now1 now2 = Inr rows \<and> i < length rows
           \<and> compute_status (wr (qs ! i)) = Inr (rows ! i ! 5)
           \<and> ((\<exists>x. py_float (wr (qs ! i)) = Inr x \<and> float_gt0 x) \<longrightarrow> rows ! i ! 5 = ''Received'')
           \<and> (wr (qs ! i) = ''0'' \<or> py_float (wr (qs ! i)) = Inl ValueError
                \<longrightarrow> rows ! i ! 5 = ''Not Received'')"
proof -
  define info where "info = (case challan_info data of None \<Rightarrow> Map.empty | Some d \<Rightarrow> d)"
  from assms(3) have "qs \<noteq> []" by auto
  then obtain rows where
    rows: "build_rows data now1 now2 = Inr rows" "length rows = length qs"
          "make_row info (strftime_date now1) (strftime_timestamp now2) (qs ! i) = Inr (rows ! i)"
    using build_rows_nth [of data now1 now2] assms(3) unfolding qs_def info_def by blast
  have w: "item_weight_received (qs ! i) = wr (qs ! i)"
    by (simp add: wr_def item_weight_received_eq)
  obtain status difference where
    st: "compute_status (wr (qs ! i)) = Inr status" and
    row: "rows ! i =
         [dict_get info ''challan_number'' [], dict_get info ''vendor_name'' [],
          item_description (qs ! i), dict_get (qs ! i) ''weight_sent'' [],
          wr (qs ! i), status, [], py_str difference,
          dict_get (qs ! i) ''number_of_bags'' [], dict_get (qs ! i) ''plating_color'' [], [],
          strftime_date now1, strftime_timestamp now2]"
    using make_row_eq [of "qs ! i" info "strftime_date now1" "strftime_timestamp now2"] rows(3) w
    by auto
  have five: "rows ! i ! 5 = status"
    by (simp add: row)
  have z: "\<not> (\<exists>x. py_float ''0'' = Inr x \<and> float_gt0 x)"
    by (simp add: py_float_0 float_gt0_def)
  have "(\<exists>x. py_float (wr (qs ! i)) = Inr x \<and> float_gt0 x) \<longrightarrow> status = ''Received''"
    using st z by (auto simp: compute_status_eq)
  moreover have "wr (qs ! i) = ''0'' \<or> py_float (wr (qs ! i)) = Inl ValueError
      \<longrightarrow> status = ''Not Received''"
    using st by (auto simp: compute_status_eq)
  ultimately show ?thesis
    using rows(1,2) assms(3) st five by auto
qed



subsection \<open>Blank descriptions and the fallback row\<close>

text \<open>Trimming gives the empty text exactly for the texts that consist of whitespace.\<close>

lemma strip_empty_iff: "strip s = [] \<longleftrightarrow> (\<forall>c\<in>set s. py_isspace c)"
proof
  assume "strip s = []"
  then have a: "\<forall>c\<in>set (dropWhile py_isspace s). py_isspace c"
    by (simp add: strip_def dropWhile_eq_Nil_conv)
  have "dropWhile py_isspace s = []"
  proof (rule ccontr)
    assume ne: "dropWhile py_isspace s \<noteq> []"
    then have "\<not> py_isspace (hd (dropWhile py_isspace s))"
      by (rule hd_dropWhile)
    moreover have "hd (dropWhile py_isspace s) \<in> set (dropWhile py_isspace s)"
      using ne by simp
    ultimately show False using a by blast
  qed
  then show "\<forall>c\<in>set s. py_isspace c"
    by (simp add: dropWhile_eq_Nil_conv)
next
  assume "\<forall>c\<in>set s. py_isspace c"
  then have "dropWhile py_isspace s = []"
    by (simp add: dropWhile_eq_Nil_conv)
  then show "strip s = []"
    unfolding strip_def by (simp del: dropWhile_eq_Nil_conv)
qed

text \<open>
  Claim C6. If every line item has a description that is empty after trimming (so also
  when there is no line item, or no \<^verbatim>\<open>table_data\<close> key at all), the derivation returns
  exactly one row: the challan number and vendor name of the document, an empty item,
  an empty weight sent, weight received \<open>0\<close>, status \<open>Not Received\<close>, empty remarks,
  difference \<open>0\<close>, empty bags, colour and photo link, and the date and timestamp of the
  clock.
\<close>

theorem fallback_row_when_all_blank:
  fixes data :: extracted_data
  defines "info \<equiv> (case challan_info data of None \<Rightarrow> Map.empty | Some d \<Rightarrow> d)"
  assumes "\<forall>item\<in>set (case table_data data of None \<Rightarrow> [] | Some l \<Rightarrow> l).
             strip (dict_get item ''description'' []) = []"
  shows "build_rows data now1 now2 =
           Inr [[dict_get info ''challan_number'' [], dict_get info ''vendor_name'' [],
                 [], [], ''0'', ''Not Received'', [], ''0'', [], [], [],
                 strftime_date now1, strftime_timestamp now2]]"
proof -
  have "filter (\<lambda>item. item_description item \<noteq> [])
          (case table_data data of None \<Rightarrow> [] | Some l \<Rightarrow> l) = []"
    using assms(2) by (auto simp: filter_empty_conv item_description_def)
  then show ?thesis
    using build_rows_char [of data now1 now2]
    by (auto simp: info_def fallback_row_def)
qed

text \<open>
  Claim C7. An item whose description is blank contributes no row: removing all such
  items from the document does not change the rows. When at least one item has a
  non-blank description, the derivation returns as many rows as there are such items,
  and the \<open>i\<close>-th row is the row of the \<open>i\<close>-th such item in document order, carrying its
  trimmed description as the item field (index 2).
\<close>

theorem blank_items_dropped:
  fixes data :: extracted_data
  defines "info \<equiv> (case challan_info data of None \<Rightarrow> Map.empty | Some d \<Rightarrow> d)"
  defines "qs \<equiv> filter (\<lambda>item. strip (dict_get item ''description'' []) \<noteq> [])
                   (case table_data data of None \<Rightarrow> [] | Some l \<Rightarrow> l)"
  shows "build_rows (data\<lparr>table_data := Some qs\<rparr>) now1 now2 = build_rows data now1 now2
         \<and> (qs \<noteq> [] \<longrightarrow>
              (\<exists>rows. build_rows data now1 now2 = Inr rows \<and> length rows = length qs
                 \<and> (\<forall>i<length qs.
                       make_row info (strftime_date now1) (strftime_timestamp now2) (qs ! i)
                         = Inr (rows ! i)
                       \<and> rows ! i ! 2 = strip (dict_get (qs ! i) ''description'' []))))"
proof -
  have qs: "qs = filter (\<lambda>item. item_description item \<noteq> [])
                   (case table_data data of None \<Rightarrow> [] | Some l \<Rightarrow> l)"
    by (simp add: qs_def item_description_def)
  have qs2: "filter (\<lambda>item. item_description item \<noteq> []) qs = qs"
    by (simp add: qs)
  obtain rows where
    rows: "build_rows data now1 now2 = Inr rows"
          "if qs = [] then rows = [fallback_row info (strftime_date now1) (strftime_timestamp now2)]
           else map Inr rows = map (make_row info (strftime_date now1) (strftime_timestamp now2)) qs"
    using build_rows_char [of data now1 now2] unfolding qs info_def by blast
  obtain rows' where
    rows': "build_rows (data\<lparr>table_data := Some qs\<rparr>) now1 now2 = Inr rows'"
          "if qs = [] then rows' = [fallback_row info (strftime_date now1) (strftime_timestamp now2)]
           else map Inr rows' = map (make_row info (strftime_date now1) (strftime_timestamp now2)) qs"
    using build_rows_char [of "data\<lparr>table_data := Some qs\<rparr>" now1 now2] qs2
    unfolding info_def by auto
  have "rows' = rows"
  proof (cases "qs = []")
    case True
    with rows(2) rows'(2) show ?thesis by simp
  next
    case False
    with rows(2) rows'(2) have "map Inr rows' = (map Inr rows :: (pyerr + row) list)" by simp
    then show ?thesis by (simp add: inj_map_eq_map)
  qed
  with rows(1) rows'(1) have first: "build_rows (data\<lparr>table_data := Some qs\<rparr>) now1 now2
      = build_rows data now1 now2"
    by simp
  have second: "\<exists>rows. build_rows data now1 now2 = Inr rows \<and> length rows = length qs
                 \<and> (\<forall>i<length qs.
                       make_row info (strftime_date now1) (strftime_timestamp now2) (qs ! i)
                         = Inr (rows ! i)
                       \<and> rows ! i ! 2 = strip (dict_get (qs ! i) ''description'' []))"
    if ne: "qs \<noteq> []"
  proof -
    obtain rs where
      rs: "build_rows data now1 now2 = Inr rs" "length rs = length qs"
          "\<forall>i<length qs. make_row info (strftime_date now1) (strftime_timestamp now2) (qs ! i)
              = Inr (rs ! i)"
      using build_rows_nth [of data now1 now2] ne unfolding qs info_def by blast
    have "rs ! i ! 2 = strip (dict_get (qs ! i) ''description'' [])" if "i < length qs" for i
      using make_row_eq [of "qs ! i" info "strftime_date now1" "strftime_timestamp now2"]
        rs(3) that
      by (auto simp: item_description_def)
    with rs show ?thesis by blast
  qed
  from first second show ?thesis by blast
qed

text \<open>
  Claim C9. The row derivation is a function of the document and of the two strings read
  from the clock: two runs on the same document whose clock readings format to the same
  date and the same timestamp return the same rows, and every run returns rows.
\<close>

theorem rows_depend_on_clock_strings:
  assumes "strftime_date now1 = strftime_date now1'"
    and "strftime_timestamp now2 = strftime_timestamp now2'"
  shows "build_rows data now1 now2 = build_rows data now1' now2'
         \<and> (\<exists>rows. build_rows data now1 now2 = Inr rows)"
proof -
  have "build_rows data now1 now2 = build_rows data now1' now2'"
    using assms by (simp add: build_rows_def)
  moreover have "\<exists>rows. build_rows data now1 now2 = Inr rows"
    using build_rows_char [of data now1 now2] by blast
  ultimately show ?thesis by blast
qed

subsection \<open>The worked example\<close>

lemma strftime_example:
  "strftime_date example_clock = ''2024-01-02''"
  "strftime_timestamp example_clock = ''2024-01-02 10:00:00''"
  by (simp_all add: strftime_timestamp_def strftime_date_def pad_def nat_str.simps example_clock_def)

lemma py_float_10: "py_float ''10'' = Inr (Finite False 5629499534213120 (- 49))"
  by (simp add: py_float_eval)

lemma py_float_10_padded: "py_float '' 10 '' = Inr (Finite False 5629499534213120 (- 49))"
  by (simp add: py_float_eval)

lemma py_float_4: "py_float ''4'' = Inr (Finite False 4503599627370496 (- 50))"
  by (simp add: py_float_eval)


lemma float_sub_10_0:
  "float_sub (Finite False 5629499534213120 (- 49)) (Finite False 0 (- 1074))
     = Finite False 5629499534213120 (- 49)"
  by (simp add: float_sub.simps scaled_def round_double_def ilog2_def bitlen_numeral
      round_half_even_def Let_def)

lemma nat_str_small: "nat_str 1 = ''1''" "nat_str (Suc 0) = ''1''" "nat_str 10 = ''10''"
  by (simp_all add: nat_str.simps)

lemma round_10: "round_double False 10 (Suc 0) = Finite False 5629499534213120 (- 49)"
  by (simp add: round_double_def ilog2_def bitlen_numeral round_half_even_def Let_def)

lemma round_20: "round_double False 20 (Suc 0) = Finite False 5629499534213120 (- 48)"
  by (simp add: round_double_def ilog2_def bitlen_numeral round_half_even_def Let_def)

lemma candidate_10:
  "candidate 5629499534213120 562949953421312 (Finite False 5629499534213120 (- 49)) (Suc 0)
     = Some (1, 1)"
  by (simp add: candidate_def reads_back_def dec_exp_def nat_str_small round_10 round_20 Let_def)

lemma shortest_10:
  "shortest 5629499534213120 562949953421312 (Finite False 5629499534213120 (- 49)) (Suc 0)
     = (1, 1)"
  by (subst shortest.simps) (simp add: candidate_10)

lemma float_repr_10: "float_repr (Finite False 5629499534213120 (- 49)) = ''10.0''"
  by (simp add: float_repr_def shortest_10 nat_str_small strip_zeros_def format_digits_def)

lemma make_row_value:
  assumes "compute_status (item_weight_received item) = Inr status"
    and "compute_difference item (item_weight_received item) = Inr difference"
  shows "make_row info d t item =
         Inr [dict_get info ''challan_number'' [], dict_get info ''vendor_name'' [],
              item_description item, dict_get item ''weight_sent'' [],
              item_weight_received item, status, [], py_str difference,
              dict_get item ''number_of_bags'' [], dict_get item ''plating_color'' [], [], d, t]"
  using assms by (simp add: make_row_def Let_def)

lemma example_item_fields:
  "item_description example_item = ''Bolt''"
  "item_weight_received example_item = ''0''"
  "dict_get example_item ''weight_sent'' [] = ''10''"
  "dict_get example_item ''number_of_bags'' [] = ''2''"
  "dict_get example_item ''plating_color'' [] = ''Zinc''"
  by (simp_all add: example_item_def item_description_def item_weight_received_def dict_get_def
      strip_def py_isspace_def)

lemma example_item_numbers:
  "compute_status ''0'' = Inr ''Not Received''"
  "compute_difference example_item ''0'' = Inr (PyFloat (Finite False 5629499534213120 (- 49)))"
proof -
  show "compute_status ''0'' = Inr ''Not Received''"
    by (simp add: compute_status_eq)
  have "weight_sent_num example_item = Inr (PyFloat (Finite False 5629499534213120 (- 49)))"
    by (simp add: weight_sent_num_eq example_item_fields py_float_10 strip_def py_isspace_def)
  moreover have "weight_received_num ''0'' = Inr (PyInt 0)"
    by (simp add: weight_received_num_def)
  ultimately show "compute_difference example_item ''0''
      = Inr (PyFloat (Finite False 5629499534213120 (- 49)))"
    by (simp add: compute_difference_def except_value_type_def int_to_float_0 float_sub_10_0)
qed

lemma example_row:
  "make_row example_info d t example_item =
     Inr [''J1'', ''V1'', ''Bolt'', ''10'', ''0'', ''Not Received'', [], ''10.0'', ''2'', ''Zinc'',
          [], d, t]"
proof -
  have "dict_get example_info ''challan_number'' [] = ''J1''"
       "dict_get example_info ''vendor_name'' [] = ''V1''"
    by (simp_all add: example_info_def dict_get_def)
  then show ?thesis
    using make_row_value [of example_item "''Not Received''"
        "PyFloat (Finite False 5629499534213120 (- 49))" example_info d t]
    by (simp add: example_item_fields example_item_numbers float_repr_10)
qed

lemma example_rows:
  "build_rows example_data example_clock example_clock =
     Inr [[''J1'', ''V1'', ''Bolt'', ''10'', ''0'', ''Not Received'', [], ''10.0'', ''2'', ''Zinc'',
           [], ''2024-01-02'', ''2024-01-02 10:00:00'']]"
  by (simp add: build_rows_def example_data_def strftime_example example_item_fields example_row)

text \<open>
  Claim C1, as amended. The worked example yields exactly one row,
  \<open>J1, V1, Bolt, 10, 0, Not Received, (empty), 10.0, 2, Zinc, (empty), 2024-01-02,
  2024-01-02 10:00:00\<close>: the difference is \<^verbatim>\<open>str(float('10') - 0)\<close>, the text \<open>10.0\<close>.
\<close>

theorem worked_example:
  "build_rows
     \<lparr>challan_info = Some [''challan_number'' \<mapsto> ''J1'', ''vendor_name'' \<mapsto> ''V1'',
                            ''date'' \<mapsto> ''2024-01-01''],
      table_data = Some [[''description'' \<mapsto> ''Bolt'', ''weight_sent'' \<mapsto> ''10'',
                          ''weight_received'' \<mapsto> '''', ''number_of_bags'' \<mapsto> ''2'',
                          ''plating_color'' \<mapsto> ''Zinc'']]\<rparr>
     \<lparr>year = 2024, month = 1, day = 2, hour = 10, minute = 0, second = 0, microsecond = 0\<rparr>
     \<lparr>year = 2024, month = 1, day = 2, hour = 10, minute = 0, second = 0, microsecond = 0\<rparr>
   = Inr [[''J1'', ''V1'', ''Bolt'', ''10'', ''0'', ''Not Received'', '''', ''10.0'', ''2'', ''Zinc'',
           '''', ''2024-01-02'', ''2024-01-02 10:00:00'']]"
  using example_rows
  by (simp only: example_data_def example_info_def example_item_def example_clock_def)

text \<open>Claim C1, counterexample: the rows of the worked example are not the single row
  with the difference field \<open>10\<close>.\<close>

theorem worked_example_difference_counterexample:
  "build_rows
     \<lparr>challan_info = Some [''challan_number'' \<mapsto> ''J1'', ''vendor_name'' \<mapsto> ''V1'',
                            ''date'' \<mapsto> ''2024-01-01''],
      table_data = Some [[''description'' \<mapsto> ''Bolt'', ''weight_sent'' \<mapsto> ''10'',
                          ''weight_received'' \<mapsto> '''', ''number_of_bags'' \<mapsto> ''2'',
                          ''plating_color'' \<mapsto> ''Zinc'']]\<rparr>
     \<lparr>year = 2024, month = 1, day = 2, hour = 10, minute = 0, second = 0, microsecond = 0\<rparr>
     \<lparr>year = 2024, month = 1, day = 2, hour = 10, minute = 0, second = 0, microsecond = 0\<rparr>
   \<noteq> Inr [[''J1'', ''V1'', ''Bolt'', ''10'', ''0'', ''Not Received'', '''', ''10'', ''2'', ''Zinc'',
           '''', ''2024-01-02'', ''2024-01-02 10:00:00'']]"
  using example_rows
  by (simp add: example_data_def example_info_def example_item_def example_clock_def)

subsection \<open>The weight fields of a row\<close>

lemma dict_get_empty: "dict_get Map.empty k dflt = dflt"
  by (simp add: dict_get_def)

text \<open>
  Claim C10. In the row of the \<open>i\<close>-th item with a non-blank description, the weight-sent
  field (index 3) is the \<^verbatim>\<open>weight_sent\<close> text of the item as it is, while the
  weight-received field (index 4) is the trimmed text, \<open>0\<close> when that is empty. So the
  weight sent that is emitted can differ from the number behind the difference: for the
  weight sent \<open>'' 10 ''\<close> the field keeps the spaces and the difference is \<open>10.0\<close>.
\<close>

theorem weight_fields_of_row:
  fixes data :: extracted_data
  defines "qs \<equiv> filter (\<lambda>item. item_description item \<noteq> [])
                   (case table_data data of None \<Rightarrow> [] | Some l \<Rightarrow> l)"
  shows "(i < length qs \<longrightarrow>
           (\<exists>rows. build_rows data now1 now2 = Inr rows \<and> i < length rows
              \<and> rows ! i ! 3 = dict_get (qs ! i) ''weight_sent'' []
              \<and> rows ! i ! 4 =
                  (if strip (dict_get (qs ! i) ''weight_received'' []) = [] then ''0''
                   else strip (dict_get (qs ! i) ''weight_received'' []))))
         \<and> build_rows \<lparr>challan_info = None,
                        table_data = Some [[''description'' \<mapsto> ''Bolt'', ''weight_sent'' \<mapsto> '' 10 '']]\<rparr>
              now1 now2
            = Inr [['''', '''', ''Bolt'', '' 10 '', ''0'', ''Not Received'', '''', ''10.0'', '''', '''',
                    '''', strftime_date now1, strftime_timestamp now2]]"
proof (intro conjI impI)
  assume i: "i < length qs"
  define info where "info = (case challan_info data of None \<Rightarrow> Map.empty | Some d \<Rightarrow> d)"
  from i have "qs \<noteq> []" by auto
  then obtain rows where
    rows: "build_rows data now1 now2 = Inr rows" "length rows = length qs"
          "make_row info (strftime_date now1) (strftime_timestamp now2) (qs ! i) = Inr (rows ! i)"
    using build_rows_nth [of data now1 now2] i unfolding qs_def info_def by blast
  have "rows ! i ! 3 = dict_get (qs ! i) ''weight_sent'' []"
       "rows ! i ! 4 = item_weight_received (qs ! i)"
    using make_row_eq [of "qs ! i" info "strftime_date now1" "strftime_timestamp now2"] rows(3)
    by auto
  with rows(1,2) i show "\<exists>rows. build_rows data now1 now2 = Inr rows \<and> i < length rows
              \<and> rows ! i ! 3 = dict_get (qs ! i) ''weight_sent'' []
              \<and> rows ! i ! 4 =
                  (if strip (dict_get (qs ! i) ''weight_received'' []) = [] then ''0''
                   else strip (dict_get (qs ! i) ''weight_received'' []))"
    by (auto simp: item_weight_received_eq)
next
  define item :: pydict where "item = [''description'' \<mapsto> ''Bolt'', ''weight_sent'' \<mapsto> '' 10 '']"
  have fields: "item_description item = ''Bolt''" "item_weight_received item = ''0''"
      "dict_get item ''weight_sent'' [] = '' 10 ''" "dict_get item ''number_of_bags'' [] = []"
      "dict_get item ''plating_color'' [] = []"
    by (simp_all add: item_def item_description_def item_weight_received_def dict_get_def
        strip_def py_isspace_def)
  have "weight_sent_num item = Inr (PyFloat (Finite False 5629499534213120 (- 49)))"
    by (simp add: weight_sent_num_eq fields py_float_10_padded strip_def py_isspace_def)
  moreover have "weight_received_num ''0'' = Inr (PyInt 0)"
    by (simp add: weight_received_num_def)
  ultimately have "compute_difference item ''0''
      = Inr (PyFloat (Finite False 5629499534213120 (- 49)))"
    by (simp add: compute_difference_def except_value_type_def int_to_float_0 float_sub_10_0)
  then have "make_row Map.empty (strftime_date now1) (strftime_timestamp now2) item =
     Inr [[], [], ''Bolt'', '' 10 '', ''0'', ''Not Received'', [], ''10.0'', [], [],
          [], strftime_date now1, strftime_timestamp now2]"
    using make_row_value [of item "''Not Received''"
        "PyFloat (Finite False 5629499534213120 (- 49))" Map.empty]
    by (simp add: fields example_item_numbers(1) float_repr_10 dict_get_empty)
  then show "build_rows \<lparr>challan_info = None,
                        table_data = Some [[''description'' \<mapsto> ''Bolt'', ''weight_sent'' \<mapsto> '' 10 '']]\<rparr>
              now1 now2
            = Inr [['''', '''', ''Bolt'', '' 10 '', ''0'', ''Not Received'', '''', ''10.0'', '''', '''',
                    '''', strftime_date now1, strftime_timestamp now2]]"
    using fields(1) by (simp add: build_rows_def item_def)
qed

subsection \<open>Witnesses\<close>

lemma example_info_fields:
  "dict_get example_info ''challan_number'' [] = ''J1''"
  "dict_get example_info ''vendor_name'' [] = ''V1''"
  by (simp_all add: example_info_def dict_get_def)

lemma received_item_fields:
  "item_description received_item = ''Bolt''"
  "strip (dict_get received_item ''weight_received'' []) = ''4''"
  by (simp_all add: received_item_def example_item_def item_description_def dict_get_def
      strip_def py_isspace_def)


lemma example_item_received: "strip (dict_get example_item ''weight_received'' []) = []"
  by (simp add: example_item_def dict_get_def strip_def)

lemma blank_item_description: "strip (dict_get blank_item ''description'' []) = []"
  by (simp add: blank_item_def dict_get_def strip_def py_isspace_def)

text \<open>Claim C4, witness: the example item with the received weight \<open>4\<close> (received), and
  the example item itself (not received).\<close>

theorem status_of_row_witness:
  "0 < length (filter (\<lambda>item. item_description item \<noteq> []) [received_item])
   \<and> (\<exists>rows. build_rows \<lparr>challan_info = Some example_info, table_data = Some [received_item]\<rparr>
                example_clock example_clock = Inr rows
              \<and> rows ! 0 ! 5 = ''Received'')
   \<and> 0 < length (filter (\<lambda>item. item_description item \<noteq> []) [example_item])
   \<and> (\<exists>rows. build_rows example_data example_clock example_clock = Inr rows
              \<and> rows ! 0 ! 5 = ''Not Received'')"
  using status_of_row [of 0 "\<lparr>challan_info = Some example_info, table_data = Some [received_item]\<rparr>"
      example_clock example_clock]
    status_of_row [of 0 example_data example_clock example_clock]
  by (auto simp: received_item_fields example_item_fields example_item_received example_data_def
      py_float_4 float_gt0_def)


text \<open>Claim C6, witness: a document whose only item has the description of two spaces.\<close>

theorem fallback_row_when_all_blank_witness:
  "strip (dict_get blank_item ''description'' []) = []
   \<and> build_rows \<lparr>challan_info = Some example_info, table_data = Some [blank_item]\<rparr>
        example_clock example_clock
      = Inr [[''J1'', ''V1'', '''', '''', ''0'', ''Not Received'', '''', ''0'', '''', '''', '''',
              ''2024-01-02'', ''2024-01-02 10:00:00'']]"
  using fallback_row_when_all_blank
    [of "\<lparr>challan_info = Some example_info, table_data = Some [blank_item]\<rparr>"
      example_clock example_clock]
  by (simp add: blank_item_description strftime_example example_info_fields)

text \<open>Claim C7, witness: a blank item followed by the example item.\<close>

theorem blank_items_dropped_witness:
  "filter (\<lambda>item. strip (dict_get item ''description'' []) \<noteq> []) [blank_item, example_item] \<noteq> []
   \<and> (\<exists>rows. build_rows \<lparr>challan_info = Some example_info,
                           table_data = Some [blank_item, example_item]\<rparr>
                example_clock example_clock = Inr rows
              \<and> length rows = 1 \<and> rows ! 0 ! 2 = ''Bolt'')"
  using blank_items_dropped
    [of "\<lparr>challan_info = Some example_info, table_data = Some [blank_item, example_item]\<rparr>"
      example_clock example_clock]
    example_item_fields(1)
  by (auto simp: blank_item_description item_description_def)

text \<open>Claim C9, witness: two clock readings that differ in the microseconds only.\<close>

theorem rows_depend_on_clock_strings_witness:
  "strftime_date example_clock = strftime_date (example_clock\<lparr>microsecond := 5\<rparr>)
   \<and> strftime_timestamp example_clock = strftime_timestamp (example_clock\<lparr>microsecond := 5\<rparr>)
   \<and> build_rows example_data example_clock example_clock
       = build_rows example_data (example_clock\<lparr>microsecond := 5\<rparr>)
           (example_clock\<lparr>microsecond := 5\<rparr>)"
proof -
  have d: "strftime_date example_clock = strftime_date (example_clock\<lparr>microsecond := 5\<rparr>)"
    by (simp add: strftime_date_def)
  have t: "strftime_timestamp example_clock
      = strftime_timestamp (example_clock\<lparr>microsecond := 5\<rparr>)"
    by (simp add: strftime_timestamp_def strftime_date_def)
  from rows_depend_on_clock_strings [OF d t, of example_data] d t show ?thesis
    by blast
qed

text \<open>Claim C10, witness: the example item.\<close>

theorem weight_fields_of_row_witness:
  "0 < length (filter (\<lambda>item. item_description item \<noteq> []) [example_item])
   \<and> (\<exists>rows. build_rows example_data example_clock example_clock = Inr rows
              \<and> rows ! 0 ! 3 = ''10'' \<and> rows ! 0 ! 4 = ''0'')"
  using weight_fields_of_row [of 0 example_data example_clock example_clock]
  by (auto simp: example_item_fields example_item_received example_data_def)

subsection \<open>The second example and the whole function\<close>

lemma float_sub_10_4:
  "float_sub (Finite False 5629499534213120 (- 49)) (Finite False 4503599627370496 (- 50))
     = Finite False 6755399441055744 (- 50)"
  by (simp add: float_sub.simps scaled_def round_double_def ilog2_def bitlen_numeral
      round_half_even_def Let_def)

lemma round_6: "round_double False 6 (Suc 0) = Finite False 6755399441055744 (- 50)"
  by (simp add: round_double_def ilog2_def bitlen_numeral round_half_even_def Let_def)

lemma round_7: "round_double False 7 (Suc 0) = Finite False 7881299347898368 (- 50)"
  by (simp add: round_double_def ilog2_def bitlen_numeral round_half_even_def Let_def)

lemma candidate_6:
  "candidate 6755399441055744 1125899906842624 (Finite False 6755399441055744 (- 50)) (Suc 0)
     = Some (6, 0)"
  by (simp add: candidate_def reads_back_def dec_exp_def nat_str_digit round_6 round_7 Let_def)

lemma shortest_6:
  "shortest 6755399441055744 1125899906842624 (Finite False 6755399441055744 (- 50)) (Suc 0)
     = (6, 0)"
  by (subst shortest.simps) (simp add: candidate_6)

lemma float_repr_6: "float_repr (Finite False 6755399441055744 (- 50)) = ''6.0''"
  by (simp add: float_repr_def shortest_6 nat_str_digit strip_zeros_def format_digits_def)

text \<open>The second example of the specification, the same item with the received weight
  \<open>4\<close>: the status is \<open>Received\<close> and the difference is \<open>6.0\<close>.\<close>

lemma second_example_rows:
  "build_rows \<lparr>challan_info = Some example_info, table_data = Some [received_item]\<rparr>
     example_clock example_clock =
     Inr [[''J1'', ''V1'', ''Bolt'', ''10'', ''4'', ''Received'', [], ''6.0'', ''2'', ''Zinc'',
           [], ''2024-01-02'', ''2024-01-02 10:00:00'']]"
proof -
  have fields: "item_description received_item = ''Bolt''"
      "item_weight_received received_item = ''4''"
      "dict_get received_item ''weight_sent'' [] = ''10''"
      "dict_get received_item ''number_of_bags'' [] = ''2''"
      "dict_get received_item ''plating_color'' [] = ''Zinc''"
    by (simp_all add: received_item_def example_item_def item_description_def
        item_weight_received_def dict_get_def strip_def py_isspace_def)
  have status: "compute_status ''4'' = Inr ''Received''"
    by (simp add: compute_status_eq py_float_4 float_gt0_def)
  have "weight_sent_num received_item = Inr (PyFloat (Finite False 5629499534213120 (- 49)))"
    by (simp add: weight_sent_num_eq fields py_float_10 strip_def py_isspace_def)
  moreover have "weight_received_num ''4'' = Inr (PyFloat (Finite False 4503599627370496 (- 50)))"
    by (simp add: weight_received_num_def py_float_4)
  ultimately have "compute_difference received_item ''4''
      = Inr (PyFloat (Finite False 6755399441055744 (- 50)))"
    by (simp add: compute_difference_def except_value_type_def float_sub_10_4)
  then have "make_row example_info ''2024-01-02'' ''2024-01-02 10:00:00'' received_item =
     Inr [''J1'', ''V1'', ''Bolt'', ''10'', ''4'', ''Received'', [], ''6.0'', ''2'', ''Zinc'',
          [], ''2024-01-02'', ''2024-01-02 10:00:00'']"
    using make_row_value [of received_item "''Received''"
        "PyFloat (Finite False 6755399441055744 (- 50))" example_info]
    by (simp add: fields status float_repr_6 example_info_fields)
  then show ?thesis
    using fields(1) by (simp add: build_rows_def strftime_example)
qed

text \<open>The whole function returns: the rows are built, posted, and the reply classified.\<close>

lemma send_to_google_sheets_returns:
  "\<exists>rows. build_rows data now1 now2 = Inr rows
     \<and> send_to_google_sheets data now1 now2 post = Inr (submit (length rows) (post rows))"
proof -
  obtain rows where "build_rows data now1 now2 = Inr rows"
    using build_rows_char [of data now1 now2] by blast
  then show ?thesis by (simp add: send_to_google_sheets_def)
qed

end
